theory Spec2Isabelle
  imports Main
begin

section \<open>JavaScript values\<close>

text \<open>
  The JSON values that travel through \<^verbatim>\<open>POST /upload\<close> of \<^verbatim>\<open>src/index.js\<close>: the fields
  of the request body, the payload of an upstream error, and the fields of the response.
  \<open>JUndefined\<close> stands for a field that is absent.
\<close>

datatype jsval =
    JUndefined
  | JNull
  | JBool bool
  | JNum int
  | JStr string
  | JArr "jsval list"
  | JObj "(string \<times> jsval) list"

text \<open>What \<^verbatim>\<open>!v\<close> and \<^verbatim>\<open>v && ...\<close> test: every value is truthy except undefined, null,
  false, 0 and the empty string.\<close>

fun truthy :: "jsval \<Rightarrow> bool" where
  "truthy JUndefined = False"
| "truthy JNull = False"
| "truthy (JBool b) = b"
| "truthy (JNum n) = (n \<noteq> 0)"
| "truthy (JStr s) = (s \<noteq> [])"
| "truthy (JArr xs) = True"
| "truthy (JObj kvs) = True"

text \<open>A value that is a string or undefined, as \<^verbatim>\<open>req.query.userId\<close> and
  \<^verbatim>\<open>response.headers['content-length']\<close> are; \<open>None\<close> is undefined.\<close>

definition truthy_str :: "string option \<Rightarrow> bool" where
  "truthy_str v = (case v of None \<Rightarrow> False | Some s \<Rightarrow> s \<noteq> [])"

text \<open>
  What \<^verbatim>\<open>err.response.data\<close> of a thrown error holds: a parsed JSON value (the error
  payload of the YouTube API), or the response stream itself (an error of \<^verbatim>\<open>axios.get\<close>
  for a response with an error status, the request having been made with
  \<^verbatim>\<open>responseType: 'stream'\<close>). A stream is an object, so it is truthy, and it cannot
  be serialised as JSON.
\<close>

datatype payload = JsonData jsval | StreamData

text \<open>A thrown error: \<^verbatim>\<open>err.message\<close> and \<^verbatim>\<open>err.response?.data\<close> (\<open>None\<close> when the
  error has no \<^verbatim>\<open>response\<close>, or the response has no \<^verbatim>\<open>data\<close>).\<close>

record js_error =
  message :: string
  response_data :: "payload option"

definition Error :: "string \<Rightarrow> js_error" where
  "Error msg = \<lparr>message = msg, response_data = None\<rparr>"

subsection \<open>Numbers and strings\<close>

definition is_digit :: "char \<Rightarrow> bool" where
  "is_digit c = (48 \<le> (of_char c :: nat) \<and> (of_char c :: nat) \<le> 57)"

definition is_space :: "char \<Rightarrow> bool" where
  "is_space c = ((of_char c :: nat) \<in> {9, 10, 11, 12, 13, 32, 160})"

definition digit_char :: "nat \<Rightarrow> char" where
  "digit_char d = ''0123456789'' ! d"

text \<open>The decimal rendering of a non-negative integer, as the template literal renders
  \<^verbatim>\<open>Date.now()\<close>.\<close>

function showNat :: "nat \<Rightarrow> string" where
  "showNat n = (if n < 10 then [digit_char n] else showNat (n div 10) @ [digit_char (n mod 10)])"
  by pat_completeness auto
termination
  by (relation "measure (\<lambda>n. n)") auto

declare showNat.simps [simp del]

definition digits_value :: "string \<Rightarrow> nat" where
  "digits_value ds = foldl (\<lambda>a c. 10 * a + ((of_char c :: nat) - 48)) 0 ds"

text \<open>
  \<^verbatim>\<open>parseInt(s, 10)\<close>: leading white space is skipped, one sign is read, then the longest
  run of decimal digits; \<open>None\<close> is NaN (no digit there). The value is the mathematical
  integer (a JavaScript number rounds it beyond \<open>2^53\<close>).
\<close>

definition parseInt10 :: "string \<Rightarrow> int option" where
  "parseInt10 s =
     (let t = dropWhile is_space s;
          neg = (t \<noteq> [] \<and> hd t = CHR ''-'');
          u = (if t \<noteq> [] \<and> (hd t = CHR ''-'' \<or> hd t = CHR ''+'') then tl t else t);
          ds = takeWhile is_digit u
      in if ds = [] then None
         else Some (if neg then - int (digits_value ds) else int (digits_value ds)))"

text \<open>\<^verbatim>\<open>path.join(dir, name)\<close> for a normalised directory and a plain file name.\<close>

definition path_join :: "string \<Rightarrow> string \<Rightarrow> string" where
  "path_join dir name = dir @ ''/'' @ name"

section \<open>Requests, responses, credentials\<close>

text \<open>The fields that line 126 destructures from \<^verbatim>\<open>req.body\<close>.\<close>

record upload_body =
  video_url :: jsval
  title :: jsval
  description :: jsval
  tags :: jsval
  category_id :: jsval
  privacy_status :: jsval
  publish_at :: jsval

text \<open>
  The request of \<^verbatim>\<open>POST /upload\<close>: \<^verbatim>\<open>req.query.userId\<close> (a query parameter given
  once is a string; \<open>None\<close> when it is not given) and \<^verbatim>\<open>req.body\<close>. The body is
  \<open>None\<close> when \<^verbatim>\<open>req.body\<close> is undefined: \<^verbatim>\<open>express.json()\<close> of express 5 leaves it so
  for a request that carries no JSON body (express 4 puts an empty object there, which is
  \<open>Some\<close> body whose fields are all \<open>JUndefined\<close>).
\<close>

record request =
  userId :: "string option"
  body :: "upload_body option"

text \<open>\<^verbatim>\<open>res.status(n).json(obj)\<close>; \<^verbatim>\<open>res.json(obj)\<close> alone answers with status 200.\<close>

record response =
  status :: nat
  json :: "(string \<times> jsval) list"

text \<open>
  How the handler ends: it has answered, or its \<^verbatim>\<open>catch\<close> block has thrown in its turn
  (\<^verbatim>\<open>res.json\<close> could not serialise what it was given), so that the handler has sent no
  answer of its own and its promise is rejected.
\<close>

datatype outcome = Answered response | Rejected

text \<open>A document of the \<^verbatim>\<open>tokens\<close> collection, stored under its \<^verbatim>\<open>sub\<close>.\<close>

record token_doc =
  email :: string
  access_token :: string
  refresh_token :: string
  token_expiry :: int

text \<open>What \<^verbatim>\<open>userAuth.setCredentials\<close> receives.\<close>

record oauth_credentials =
  cred_access_token :: string
  cred_refresh_token :: string
  cred_expiry_date :: int

text \<open>The argument of \<^verbatim>\<open>youtube.videos.insert\<close>; \<open>publishAt\<close> is there only when
  \<^verbatim>\<open>publish_at\<close> is truthy.\<close>

record insert_request =
  snippet_title :: jsval
  snippet_description :: jsval
  snippet_tags :: jsval
  snippet_categoryId :: jsval
  status_privacyStatus :: jsval
  status_publishAt :: "jsval option"
  media_path :: string

section \<open>The world outside the handler\<close>

text \<open>Every call the handler makes on an external collaborator, in the order made.\<close>

datatype call =
    DbFindOne string
  | AxiosGet jsval
  | S3Put string "int option"
  | S3Get string
  | PipelineToFile string
  | FsCreateReadStream string
  | YoutubeInsert insert_request oauth_credentials
  | S3Delete string
  | FsUnlink string

text \<open>
  The state the handler reads and changes: the \<^verbatim>\<open>tokens\<close> collection behind the global
  \<^verbatim>\<open>db\<close> (\<open>None\<close> while \<^verbatim>\<open>db\<close> is still undefined, the connection not made), the keys
  of the bucket, the paths of the local files, the paths whose \<^verbatim>\<open>fs.unlink\<close> has been
  started and has not completed yet, and the calls made so far.
\<close>

record world =
  db :: "(string \<rightharpoonup> token_doc) option"
  bucket :: "string set"
  files :: "string set"
  pending_unlinks :: "string list"
  calls :: "call list"

text \<open>How the stream pipeline into the temporary file ends: completed, or broken with an
  error, the file having been created (partially written) or not.\<close>

datatype pipe_outcome = PipeDone | PipeBroken js_error bool

text \<open>
  What the collaborators answer during one run; the handler calls each at most once.
  \<open>axios_get\<close> is the rejection of \<^verbatim>\<open>axios.get\<close> or the \<^verbatim>\<open>content-length\<close> header of its
  response; \<open>videos_insert\<close> is the rejection of \<^verbatim>\<open>youtube.videos.insert\<close> or the id of the
  created video; \<open>token_refresh\<close> is the access token and expiry the OAuth client obtained
  when it refreshed during that call (\<open>None\<close>: it did not refresh); \<open>unlink_error\<close> is the
  error the file system hands to the callback of \<^verbatim>\<open>fs.unlink\<close> for a file that is there.
\<close>

record env =
  date_now :: nat
  uuidv4 :: string
  tmpdir :: string
  findOne_rejects :: "js_error option"
  axios_get :: "js_error + string option"
  put_object :: "js_error option"
  get_object :: "js_error option"
  pipeline_out :: pipe_outcome
  videos_insert :: "js_error + string"
  token_refresh :: "(string \<times> int) option"
  delete_object :: "js_error option"
  unlink_error :: "js_error option"



definition record_call :: "call \<Rightarrow> world \<Rightarrow> world" where
  "record_call c w = w\<lparr>calls := calls w @ [c]\<rparr>"

text \<open>
  \<^verbatim>\<open>fs.unlink(path, callback)\<close> is the asynchronous call: it starts the removal and
  returns; neither caller waits for it. The file is still there when control moves on.
\<close>

definition fs_unlink :: "string \<Rightarrow> world \<Rightarrow> world" where
  "fs_unlink p w = record_call (FsUnlink p) (w\<lparr>pending_unlinks := pending_unlinks w @ [p]\<rparr>)"

text \<open>
  The removals that were started complete later, outside the handler's own sequence: each
  path is removed unless the file system reports an error, which the callback of line 119
  ignores and the callback of lines 190 to 192 only logs.
\<close>

definition complete_unlinks :: "env \<Rightarrow> world \<Rightarrow> world" where
  "complete_unlinks en w =
     w\<lparr>files := (case unlink_error en of
                   None \<Rightarrow> files w - set (pending_unlinks w)
                 | Some err \<Rightarrow> files w),
       pending_unlinks := []\<rparr>"

text \<open>\<^verbatim>\<open>s3.send(new GetObjectCommand(...))\<close> rejects when the store says so or the key is
  not in the bucket.\<close>

definition s3_get :: "env \<Rightarrow> string \<Rightarrow> world \<Rightarrow> js_error option" where
  "s3_get en k w =
     (case get_object en of
        Some err \<Rightarrow> Some err
      | None \<Rightarrow> if k \<in> bucket w then None else Some (Error ''NoSuchKey''))"

section \<open>downloadFromR2ToTemp\<close>

text \<open>Lines 104 to 122. The \<^verbatim>\<open>catch\<close> block starts the removal of the temporary file and
  throws the error on at once.\<close>

definition downloadFromR2ToTemp :: "env \<Rightarrow> string \<Rightarrow> world \<Rightarrow> (js_error + string) \<times> world" where
  "downloadFromR2ToTemp en objectKey w =
     (let tempFilePath = path_join (tmpdir en) objectKey;
          w1 = record_call (S3Get objectKey) w
      in case s3_get en objectKey w1 of
           Some err \<Rightarrow> (Inl err, fs_unlink tempFilePath w1)
         | None \<Rightarrow>
             (let w2 = record_call (PipelineToFile tempFilePath) w1
              in case pipeline_out en of
                   PipeDone \<Rightarrow>
                     (Inr tempFilePath, w2\<lparr>files := insert tempFilePath (files w2)\<rparr>)
                 | PipeBroken err created \<Rightarrow>
                     (Inl err,
                      fs_unlink tempFilePath
                        (if created then w2\<lparr>files := insert tempFilePath (files w2)\<rparr> else w2))))"

section \<open>POST /upload\<close>

definition objectName :: "env \<Rightarrow> string" where
  "objectName en = ''video_'' @ showNat (date_now en) @ ''_'' @ take 8 (uuidv4 en) @ ''.mp4''"

definition setCredentials :: "token_doc \<Rightarrow> oauth_credentials" where
  "setCredentials userData =
     \<lparr>cred_access_token = access_token userData,
      cred_refresh_token = refresh_token userData,
      cred_expiry_date = token_expiry userData\<rparr>"

definition insert_params :: "upload_body \<Rightarrow> string \<Rightarrow> insert_request" where
  "insert_params b tempFilePath =
     \<lparr>snippet_title = title b,
      snippet_description = description b,
      snippet_tags = tags b,
      snippet_categoryId = category_id b,
      status_privacyStatus = privacy_status b,
      status_publishAt = (if truthy (publish_at b) then Some (publish_at b) else None),
      media_path = tempFilePath\<rparr>"

definition success_response :: "string \<Rightarrow> response" where
  "success_response vid =
     \<lparr>status = 200,
      json = [(''videoId'', JStr vid),
              (''message'', JStr ''Video uploaded successfully''),
              (''url'', JStr (''https://youtu.be/'' @ vid))]\<rparr>"

definition error_response :: "nat \<Rightarrow> string \<Rightarrow> response" where
  "error_response code msg = \<lparr>status = code, json = [(''error'', JStr msg)]\<rparr>"

text \<open>
  The \<^verbatim>\<open>catch\<close> block of the handler, lines 200 to 206: status 500, the message, and the
  upstream payload under \<^verbatim>\<open>details\<close> when it is truthy. When the payload is a stream,
  \<^verbatim>\<open>res.json\<close> throws and nothing is answered.
\<close>

definition catch_block :: "js_error \<Rightarrow> outcome" where
  "catch_block err =
     (case response_data err of
        None \<Rightarrow> Answered \<lparr>status = 500, json = [(''error'', JStr (message err))]\<rparr>
      | Some (JsonData d) \<Rightarrow>
          Answered \<lparr>status = 500,
                    json = (''error'', JStr (message err)) #
                           (if truthy d then [(''details'', d)] else [])\<rparr>
      | Some StreamData \<Rightarrow> Rejected)"

text \<open>Lines 164 to 198: the upload to YouTube from the temporary file, then the cleanup
  and the answer. \<open>Inl\<close> is an error thrown inside the \<^verbatim>\<open>try\<close> block.\<close>

definition publish_and_cleanup ::
    "env \<Rightarrow> upload_body \<Rightarrow> oauth_credentials \<Rightarrow> string \<Rightarrow> string \<Rightarrow> world \<Rightarrow>
       (js_error + response) \<times> world" where
  "publish_and_cleanup en b userAuth name tempFilePath w =
     (let w1 = record_call (FsCreateReadStream tempFilePath) w;
          w2 = record_call (YoutubeInsert (insert_params b tempFilePath) userAuth) w1
      in case videos_insert en of
           Inl err \<Rightarrow> (Inl err, w2)
         | Inr vid \<Rightarrow>
             (let w3 = record_call (S3Delete name) w2
              in case delete_object en of
                   Some err \<Rightarrow> (Inl err, w3)
                 | None \<Rightarrow>
                     (Inr (success_response vid),
                      fs_unlink tempFilePath (w3\<lparr>bucket := bucket w3 - {name}\<rparr>))))"

text \<open>Lines 155 to 165: the upload to R2 under a fresh name, and the download of that
  object into the temporary file.\<close>

definition stage_and_publish ::
    "env \<Rightarrow> upload_body \<Rightarrow> oauth_credentials \<Rightarrow> string \<Rightarrow> world \<Rightarrow>
       (js_error + response) \<times> world" where
  "stage_and_publish en b userAuth contentLength w =
     (let name = objectName en;
          w1 = record_call (S3Put name (parseInt10 contentLength)) w
      in case put_object en of
           Some err \<Rightarrow> (Inl err, w1)
         | None \<Rightarrow>
             (case downloadFromR2ToTemp en name (w1\<lparr>bucket := insert name (bucket w1)\<rparr>) of
                (Inl err, w2) \<Rightarrow> (Inl err, w2)
              | (Inr tempFilePath, w2) \<Rightarrow> publish_and_cleanup en b userAuth name tempFilePath w2))"

text \<open>Lines 150 to 153: the request to the source and the check of its
  \<^verbatim>\<open>content-length\<close> header.\<close>

definition fetch_and_stage ::
    "env \<Rightarrow> upload_body \<Rightarrow> oauth_credentials \<Rightarrow> world \<Rightarrow> (js_error + response) \<times> world" where
  "fetch_and_stage en b userAuth w =
     (let w1 = record_call (AxiosGet (video_url b)) w
      in case axios_get en of
           Inl err \<Rightarrow> (Inl err, w1)
         | Inr contentLength \<Rightarrow>
             (case contentLength of
                None \<Rightarrow> (Inl (Error ''Content-Length header missing from video source''), w1)
              | Some cl \<Rightarrow>
                  if cl = [] then (Inl (Error ''Content-Length header missing from video source''), w1)
                  else stage_and_publish en b userAuth cl w1))"

text \<open>
  The \<^verbatim>\<open>try\<close> block, lines 126 to 198. Line 126 destructures \<^verbatim>\<open>req.body\<close> before anything
  is checked, which throws a TypeError when \<^verbatim>\<open>req.body\<close> is undefined; so does reading
  \<^verbatim>\<open>db.collection\<close> while \<^verbatim>\<open>db\<close> is undefined.
\<close>

definition upload_try :: "env \<Rightarrow> request \<Rightarrow> world \<Rightarrow> (js_error + response) \<times> world" where
  "upload_try en req w =
     (case body req of
        None \<Rightarrow>
          (Inl (Error ''Cannot destructure property 'video_url' of 'req.body' as it is undefined.''), w)
      | Some b \<Rightarrow>
          (case userId req of
             None \<Rightarrow> (Inr (error_response 401 ''User not authenticated''), w)
           | Some uid \<Rightarrow>
               if uid = [] then (Inr (error_response 401 ''User not authenticated''), w)
               else if \<not> truthy (video_url b) then
                 (Inr (error_response 400 ''Video URL is required''), w)
               else
                 (case db w of
                    None \<Rightarrow>
                      (Inl (Error ''Cannot read properties of undefined (reading 'collection')''), w)
                  | Some users \<Rightarrow>
                      (let w1 = record_call (DbFindOne uid) w
                       in case findOne_rejects en of
                            Some err \<Rightarrow> (Inl err, w1)
                          | None \<Rightarrow>
                              (case users uid of
                                 None \<Rightarrow> (Inr (error_response 401 ''User not found''), w1)
                               | Some userData \<Rightarrow>
                                   fetch_and_stage en b (setCredentials userData) w1)))))"

text \<open>The handler: what the \<^verbatim>\<open>try\<close> block answers, or what the \<^verbatim>\<open>catch\<close> block does
  with what it throws.\<close>

definition upload :: "env \<Rightarrow> request \<Rightarrow> world \<Rightarrow> outcome \<times> world" where
  "upload en req w =
     (case upload_try en req w of
        (Inl err, w') \<Rightarrow> (catch_block err, w')
      | (Inr res, w') \<Rightarrow> (Answered res, w'))"

section \<open>Observing a run\<close>

text \<open>The calls one run adds to those already made.\<close>

definition run_calls :: "env \<Rightarrow> request \<Rightarrow> world \<Rightarrow> call list" where
  "run_calls en req w = drop (length (calls w)) (calls (snd (upload en req w)))"

fun is_fetch :: "call \<Rightarrow> bool" where
  "is_fetch (AxiosGet u) = True"
| "is_fetch c = False"


fun is_publish :: "call \<Rightarrow> bool" where
  "is_publish (YoutubeInsert p a) = True"
| "is_publish c = False"

section \<open>Concrete runs\<close>

text \<open>One user with a stored credential whose access token expired long ago, an empty
  bucket, no local file, no call made yet.\<close>

definition doc_u1 :: token_doc where
  "doc_u1 = \<lparr>email = ''u1@example.com'', access_token = ''old-token'',
             refresh_token = ''refresh-1'', token_expiry = 1000\<rparr>"

definition world0 :: world where
  "world0 = \<lparr>db = Some [''u1'' \<mapsto> doc_u1], bucket = {}, files = {}, pending_unlinks = [],
            calls = []\<rparr>"

definition body_ok :: upload_body where
  "body_ok = \<lparr>video_url = JStr ''https://example.com/a.mp4'',
             title = JStr ''T'', description = JUndefined, tags = JUndefined,
             category_id = JUndefined, privacy_status = JStr ''private'',
             publish_at = JUndefined\<rparr>"

definition req_ok :: request where
  "req_ok = \<lparr>userId = Some ''u1'', body = Some body_ok\<rparr>"

definition req_no_user :: request where
  "req_no_user = \<lparr>userId = None, body = Some body_ok\<rparr>"

definition req_no_url :: request where
  "req_no_url = \<lparr>userId = Some ''u1'', body = Some (body_ok\<lparr>video_url := JUndefined\<rparr>)\<rparr>"

definition req_empty :: request where
  "req_empty = \<lparr>userId = None, body = Some (body_ok\<lparr>video_url := JUndefined\<rparr>)\<rparr>"

definition req_ghost :: request where
  "req_ghost = \<lparr>userId = Some ''ghost'', body = Some body_ok\<rparr>"

definition req_ghost_no_url :: request where
  "req_ghost_no_url = \<lparr>userId = Some ''ghost'', body = Some (body_ok\<lparr>video_url := JUndefined\<rparr>)\<rparr>"

text \<open>Requests that carry no JSON body, so that \<^verbatim>\<open>req.body\<close> is undefined: without and
  with a \<^verbatim>\<open>userId\<close>.\<close>

definition req_bare :: request where
  "req_bare = \<lparr>userId = None, body = None\<rparr>"

definition req_user_no_body :: request where
  "req_user_no_body = \<lparr>userId = Some ''u1'', body = None\<rparr>"

text \<open>Every collaborator answers well: the source declares 12345 bytes, the video gets
  the id \<open>dQw4w9WgXcQ\<close>.\<close>

definition env_ok :: env where
  "env_ok = \<lparr>date_now = 1700000000000, uuidv4 = ''3f2a9c1e-7b4d-4e8a-9c55-0d1e2f3a4b5c'',
            tmpdir = ''/tmp'', findOne_rejects = None, axios_get = Inr (Some ''12345''),
            put_object = None, get_object = None, pipeline_out = PipeDone,
            videos_insert = Inr ''dQw4w9WgXcQ'', token_refresh = None,
            delete_object = None, unlink_error = None\<rparr>"

text \<open>The source answers without a \<^verbatim>\<open>content-length\<close> header.\<close>

definition env_no_length :: env where
  "env_no_length = env_ok\<lparr>axios_get := Inr None\<rparr>"

text \<open>The source answers with status 404: \<^verbatim>\<open>axios.get\<close> rejects with an error whose
  \<^verbatim>\<open>response.data\<close> is the response stream.\<close>

definition env_source_404 :: env where
  "env_source_404 =
     env_ok\<lparr>axios_get := Inl \<lparr>message = ''Request failed with status code 404'',
                              response_data = Some StreamData\<rparr>\<rparr>"

text \<open>YouTube rejects the upload: the quota is exceeded.\<close>

definition quota_error :: js_error where
  "quota_error =
     \<lparr>message = ''The request cannot be completed because you have exceeded your quota.'',
      response_data = Some (JsonData (JObj [(''error'', JObj [(''code'', JNum 403)])]))\<rparr>"

definition env_quota :: env where
  "env_quota = env_ok\<lparr>videos_insert := Inl quota_error\<rparr>"

text \<open>The video is created, then the store rejects the deletion of the staged object.\<close>

definition env_delete_fails :: env where
  "env_delete_fails = env_ok\<lparr>delete_object := Some (Error ''AccessDenied'')\<rparr>"

text \<open>The OAuth client refreshes the expired access token while it uploads.\<close>

definition env_refresh :: env where
  "env_refresh = env_ok\<lparr>token_refresh := Some (''new-token'', 1700003600000)\<rparr>"

text \<open>The download of the staged object breaks after the temporary file was created.\<close>

definition env_broken_pipe :: env where
  "env_broken_pipe = env_ok\<lparr>pipeline_out := PipeBroken (Error ''aborted'') True\<rparr>"

definition world_staged :: world where
  "world_staged = world0\<lparr>bucket := {''video_1700000000000_3f2a9c1e.mp4''}\<rparr>"


section \<open>What every run does to the world\<close>

lemmas handler_defs =
  upload_def upload_try_def fetch_and_stage_def stage_and_publish_def publish_and_cleanup_def
  downloadFromR2ToTemp_def s3_get_def fs_unlink_def record_call_def

lemmas response_defs = error_response_def catch_block_def success_response_def Error_def

lemmas eval_defs =
  Let_def objectName_def showNat.simps digit_char_def path_join_def truthy_str_def
  parseInt10_def is_space_def is_digit_def digits_value_def insert_params_def setCredentials_def

lemmas input_defs =
  doc_u1_def world0_def body_ok_def req_ok_def req_no_user_def req_no_url_def req_empty_def
  req_ghost_def req_ghost_no_url_def req_bare_def req_user_no_body_def env_ok_def
  env_no_length_def env_source_404_def quota_error_def env_quota_def env_delete_fails_def env_refresh_def
  env_broken_pipe_def world_staged_def

text \<open>
  Each stage leaves the credential store alone and only adds calls. When a stage hands back
  a response that came out of the cleanup, that response is the success response for the id
  YouTube returned, the staged object is out of the bucket, and the deletion is among the
  calls added.
\<close>

lemma download_run:
  assumes "downloadFromR2ToTemp en k w = (r, w')"
  shows "db w' = db w \<and> bucket w' = bucket w \<and> (\<exists>cs. calls w' = calls w @ cs)"
  using assms
  by (auto simp: downloadFromR2ToTemp_def fs_unlink_def record_call_def Let_def
           split: option.splits pipe_outcome.splits if_splits)

lemma publish_run:
  assumes "publish_and_cleanup en b ua name tmp w = (r, w')"
  shows "db w' = db w \<and>
         (\<exists>cs. calls w' = calls w @ cs \<and>
            (\<forall>res. r = Inr res \<longrightarrow>
               (\<exists>vid. videos_insert en = Inr vid \<and> res = success_response vid) \<and>
               name \<notin> bucket w' \<and> S3Delete name \<in> set cs))"
  using assms
  by (auto simp: publish_and_cleanup_def fs_unlink_def record_call_def Let_def
           split: option.splits sum.splits)

lemma stage_run:
  assumes "stage_and_publish en b ua cl w = (r, w')"
  shows "db w' = db w \<and>
         (\<exists>cs. calls w' = calls w @ cs \<and>
            (\<forall>res. r = Inr res \<longrightarrow>
               (\<exists>vid. videos_insert en = Inr vid \<and> res = success_response vid) \<and>
               objectName en \<notin> bucket w' \<and> S3Delete (objectName en) \<in> set cs))"
proof (cases "put_object en")
  case (Some err)
  with assms show ?thesis
    by (auto simp: stage_and_publish_def record_call_def Let_def)
next
  case None
  let ?w1 = "record_call (S3Put (objectName en) (parseInt10 cl)) w"
  let ?w1' = "?w1\<lparr>bucket := insert (objectName en) (bucket ?w1)\<rparr>"
  obtain r2 w2 where dl: "downloadFromR2ToTemp en (objectName en) ?w1' = (r2, w2)"
    by (cases "downloadFromR2ToTemp en (objectName en) ?w1'")
  from download_run [OF dl] obtain cs2
    where w2: "db w2 = db w" "calls w2 = calls w @ S3Put (objectName en) (parseInt10 cl) # cs2"
    by (auto simp: record_call_def)
  show ?thesis
  proof (cases r2)
    case (Inl err)
    with assms None dl w2 show ?thesis
      by (auto simp: stage_and_publish_def Let_def)
  next
    case (Inr tmp)
    with assms None dl
    have pc: "publish_and_cleanup en b ua (objectName en) tmp w2 = (r, w')"
      by (simp add: stage_and_publish_def Let_def)
    from publish_run [OF pc] w2 show ?thesis
      by auto
  qed
qed

lemma fetch_run:
  assumes "fetch_and_stage en b ua w = (r, w')"
  shows "db w' = db w \<and>
         (\<exists>cs. calls w' = calls w @ cs \<and>
            (\<forall>res. r = Inr res \<longrightarrow>
               (\<exists>vid. videos_insert en = Inr vid \<and> res = success_response vid) \<and>
               objectName en \<notin> bucket w' \<and> S3Delete (objectName en) \<in> set cs))"
proof (cases "\<exists>cl. axios_get en = Inr (Some cl) \<and> cl \<noteq> []")
  case False
  with assms show ?thesis
    by (auto simp: fetch_and_stage_def record_call_def Let_def
             split: sum.splits option.splits if_splits)
next
  case True
  then obtain cl where cl: "axios_get en = Inr (Some cl)" "cl \<noteq> []"
    by blast
  with assms
  have sp: "stage_and_publish en b ua cl (record_call (AxiosGet (video_url b)) w) = (r, w')"
    by (simp add: fetch_and_stage_def Let_def)
  from stage_run [OF sp] show ?thesis
    by (auto simp: record_call_def)
qed

lemma try_run:
  assumes "upload_try en req w = (r, w')"
  shows "db w' = db w \<and>
         (\<exists>cs. calls w' = calls w @ cs \<and>
            (\<forall>res. r = Inr res \<and> status res = 200 \<longrightarrow>
               (\<exists>vid. videos_insert en = Inr vid \<and> res = success_response vid) \<and>
               objectName en \<notin> bucket w' \<and> S3Delete (objectName en) \<in> set cs))"
proof (cases "\<exists>b uid users doc. body req = Some b \<and> userId req = Some uid \<and> uid \<noteq> [] \<and>
                truthy (video_url b) \<and> db w = Some users \<and> findOne_rejects en = None \<and>
                users uid = Some doc")
  case False
  with assms show ?thesis
    by (auto simp: upload_try_def record_call_def error_response_def Let_def
             split: option.splits if_splits)
next
  case True
  then obtain b uid users doc where h: "body req = Some b" "userId req = Some uid" "uid \<noteq> []"
      "truthy (video_url b)" "db w = Some users" "findOne_rejects en = None" "users uid = Some doc"
    by blast
  with assms
  have fs: "fetch_and_stage en b (setCredentials doc) (record_call (DbFindOne uid) w) = (r, w')"
    by (simp add: upload_try_def Let_def)
  from fetch_run [OF fs] show ?thesis
    by (auto simp: record_call_def)
qed

lemma upload_run:
  "db (snd (upload en req w)) = db w \<and>
   calls (snd (upload en req w)) = calls w @ run_calls en req w \<and>
   (\<forall>res. fst (upload en req w) = Answered res \<and> status res = 200 \<longrightarrow>
      (\<exists>vid. videos_insert en = Inr vid \<and> res = success_response vid) \<and>
      objectName en \<notin> bucket (snd (upload en req w)) \<and>
      S3Delete (objectName en) \<in> set (run_calls en req w))"
proof -
  obtain r w' where t: "upload_try en req w = (r, w')"
    by (cases "upload_try en req w")
  from try_run [OF t] show ?thesis
    by (cases r)
       (auto simp: upload_def run_calls_def t catch_block_def split: option.splits payload.splits)
qed





text \<open>When the source answers with an error status, the \<^verbatim>\<open>catch\<close> block is handed the
  response stream as payload and answers nothing; nothing was staged.\<close>

lemma source_error_status_not_answered:
  "fst (upload env_source_404 req_ok world0) = Rejected \<and>
   run_calls env_source_404 req_ok world0 =
     [DbFindOne ''u1'', AxiosGet (JStr ''https://example.com/a.mp4'')]"
  by (simp add: run_calls_def handler_defs response_defs eval_defs input_defs)

section \<open>Requests turned away before any call\<close>










section \<open>A user without a credential\<close>

text \<open>
  Claim C7, as stated, fails: a request whose \<^verbatim>\<open>userId\<close> has no credential record and
  that carries no \<^verbatim>\<open>video_url\<close> is answered with 400, not 401, since the body is checked
  before the store is asked.
\<close>

theorem unknown_user_without_url_counterexample:
  "userId req_ghost_no_url = Some ''ghost'' \<and>
   the (db world0) ''ghost'' = None \<and>
   fst (upload env_ok req_ghost_no_url world0) =
     Answered \<lparr>status = 400, json = [(''error'', JStr ''Video URL is required'')]\<rparr>"
  by (simp add: handler_defs response_defs eval_defs input_defs)

text \<open>
  Claim C7, amended. A request that carries a \<^verbatim>\<open>userId\<close> and a \<^verbatim>\<open>video_url\<close>, and for
  whose \<^verbatim>\<open>userId\<close> the lookup in the credential store finds no record, is answered with
  status 401 and the error \<open>User not found\<close>; the lookup is the only call of the run, so no
  fetch is made against the source URL.
\<close>

theorem unknown_user_not_found:
  assumes "userId req = Some uid" and "uid \<noteq> []"
    and "body req = Some b" and "truthy (video_url b)"
    and "db w = Some users" and "findOne_rejects en = None" and "users uid = None"
  shows "fst (upload en req w) = Answered (error_response 401 ''User not found'') \<and>
         run_calls en req w = [DbFindOne uid] \<and>
         \<not> list_ex is_fetch (run_calls en req w)"
  using assms
  by (simp add: run_calls_def upload_def upload_try_def record_call_def Let_def)

theorem unknown_user_not_found_witness:
  "userId req_ghost = Some ''ghost'' \<and> body req_ghost = Some body_ok \<and>
   truthy (video_url body_ok) \<and>
   db world0 = Some [''u1'' \<mapsto> doc_u1] \<and> findOne_rejects env_ok = None \<and>
   [''u1'' \<mapsto> doc_u1] ''ghost'' = None \<and>
   fst (upload env_ok req_ghost world0) =
     Answered \<lparr>status = 401, json = [(''error'', JStr ''User not found'')]\<rparr> \<and>
   run_calls env_ok req_ghost world0 = [DbFindOne ''ghost'']"
proof -
  have h1: "userId req_ghost = Some ''ghost''" and h2: "''ghost'' \<noteq> []"
    and h3: "body req_ghost = Some body_ok"
    by (simp_all add: req_ghost_def)
  have h4: "truthy (video_url body_ok)"
    by (simp add: body_ok_def)
  have h5: "db world0 = Some [''u1'' \<mapsto> doc_u1]"
    by (simp add: world0_def)
  have h6: "findOne_rejects env_ok = None"
    by (simp add: env_ok_def)
  have h7: "[''u1'' \<mapsto> doc_u1] ''ghost'' = None"
    by simp
  show ?thesis
    using h1 h3 h4 h5 h6 h7 unknown_user_not_found [OF h1 h2 h3 h4 h5 h6 h7]
    by (simp add: error_response_def)
qed

section \<open>The declared length of the source\<close>



section \<open>The successful run\<close>



section \<open>A failed download\<close>

text \<open>
  Claim C9, as stated, fails: \<^verbatim>\<open>fs.unlink\<close> is the asynchronous call and is not awaited,
  so the error leaves \<^verbatim>\<open>downloadFromR2ToTemp\<close> while the partly written file is still
  there, its removal only started.
\<close>

theorem failed_download_file_still_there_counterexample:
  "fst (downloadFromR2ToTemp env_broken_pipe ''video_1700000000000_3f2a9c1e.mp4'' world_staged) =
     Inl (Error ''aborted'') \<and>
   ''/tmp/video_1700000000000_3f2a9c1e.mp4'' \<in>
     files (snd (downloadFromR2ToTemp env_broken_pipe ''video_1700000000000_3f2a9c1e.mp4'' world_staged)) \<and>
   pending_unlinks (snd (downloadFromR2ToTemp env_broken_pipe ''video_1700000000000_3f2a9c1e.mp4'' world_staged)) =
     [''/tmp/video_1700000000000_3f2a9c1e.mp4'']"
  by (simp add: handler_defs eval_defs input_defs)

text \<open>
  Claim C9, amended. When \<^verbatim>\<open>downloadFromR2ToTemp\<close> fails, whether the staged object could
  not be read or the local copy could not be written, the removal of the temporary file
  has been started before the error leaves the function: the \<^verbatim>\<open>fs.unlink\<close> of its path is
  the last call made and is pending. The file is gone once that removal has completed,
  unless the file system reports an error, which is ignored.
\<close>

theorem failed_download_starts_removal:
  assumes "fst (downloadFromR2ToTemp en objectKey w) = Inl err"
  shows "last (calls (snd (downloadFromR2ToTemp en objectKey w))) =
           FsUnlink (path_join (tmpdir en) objectKey) \<and>
         path_join (tmpdir en) objectKey \<in>
           set (pending_unlinks (snd (downloadFromR2ToTemp en objectKey w))) \<and>
         (unlink_error en = None \<longrightarrow>
            path_join (tmpdir en) objectKey \<notin>
              files (complete_unlinks en (snd (downloadFromR2ToTemp en objectKey w))))"
  using assms
  by (simp add: downloadFromR2ToTemp_def fs_unlink_def record_call_def complete_unlinks_def Let_def
        split: option.splits pipe_outcome.splits)

theorem failed_download_starts_removal_witness:
  "fst (downloadFromR2ToTemp env_broken_pipe ''video_1700000000000_3f2a9c1e.mp4'' world_staged) =
     Inl (Error ''aborted'') \<and>
   unlink_error env_broken_pipe = None \<and>
   calls (snd (downloadFromR2ToTemp env_broken_pipe ''video_1700000000000_3f2a9c1e.mp4'' world_staged)) =
     [S3Get ''video_1700000000000_3f2a9c1e.mp4'',
      PipelineToFile ''/tmp/video_1700000000000_3f2a9c1e.mp4'',
      FsUnlink ''/tmp/video_1700000000000_3f2a9c1e.mp4''] \<and>
   ''/tmp/video_1700000000000_3f2a9c1e.mp4'' \<notin>
     files (complete_unlinks env_broken_pipe
       (snd (downloadFromR2ToTemp env_broken_pipe ''video_1700000000000_3f2a9c1e.mp4'' world_staged)))"
proof -
  have h: "fst (downloadFromR2ToTemp env_broken_pipe ''video_1700000000000_3f2a9c1e.mp4'' world_staged) =
             Inl (Error ''aborted'')"
    by (simp add: handler_defs eval_defs input_defs)
  have u: "unlink_error env_broken_pipe = None"
    by (simp add: input_defs)
  have c: "calls (snd (downloadFromR2ToTemp env_broken_pipe ''video_1700000000000_3f2a9c1e.mp4'' world_staged)) =
     [S3Get ''video_1700000000000_3f2a9c1e.mp4'',
      PipelineToFile ''/tmp/video_1700000000000_3f2a9c1e.mp4'',
      FsUnlink ''/tmp/video_1700000000000_3f2a9c1e.mp4'']"
    by (simp add: handler_defs eval_defs input_defs)
  have t: "path_join (tmpdir env_broken_pipe) ''video_1700000000000_3f2a9c1e.mp4'' =
             ''/tmp/video_1700000000000_3f2a9c1e.mp4''"
    by (simp add: path_join_def input_defs)
  show ?thesis
    using h u c t failed_download_starts_removal [OF h]
    by simp
qed

section \<open>Runs that fail after staging\<close>

text \<open>
  Claim C1 says that a run failing after the staged object was created still deletes the
  staged object and removes the temporary file before it answers. The handler does its
  cleanup only after a successful publish; its \<^verbatim>\<open>catch\<close> block answers 500 and releases
  nothing. Here YouTube rejects the upload for quota: the run answers 500 with the upstream
  payload, the staged object is still in the bucket, the temporary file is still on disk,
  and the run made neither the delete nor the unlink call.
\<close>

theorem failed_publish_leaves_staged_object_and_file:
  "fst (upload env_quota req_ok world0) =
     Answered
       \<lparr>status = 500,
        json = [(''error'', JStr ''The request cannot be completed because you have exceeded your quota.''),
                (''details'', JObj [(''error'', JObj [(''code'', JNum 403)])])]\<rparr> \<and>
   bucket (snd (upload env_quota req_ok world0)) = {''video_1700000000000_3f2a9c1e.mp4''} \<and>
   files (snd (upload env_quota req_ok world0)) = {''/tmp/video_1700000000000_3f2a9c1e.mp4''} \<and>
   pending_unlinks (snd (upload env_quota req_ok world0)) = [] \<and>
   run_calls env_quota req_ok world0 =
     [DbFindOne ''u1'', AxiosGet (JStr ''https://example.com/a.mp4''),
      S3Put ''video_1700000000000_3f2a9c1e.mp4'' (Some 12345),
      S3Get ''video_1700000000000_3f2a9c1e.mp4'',
      PipelineToFile ''/tmp/video_1700000000000_3f2a9c1e.mp4'',
      FsCreateReadStream ''/tmp/video_1700000000000_3f2a9c1e.mp4'',
      YoutubeInsert (insert_params body_ok ''/tmp/video_1700000000000_3f2a9c1e.mp4'')
        (setCredentials doc_u1)]"
  by (simp add: run_calls_def handler_defs response_defs eval_defs input_defs)

text \<open>
  Claim C2 says that a failing delete of the staged object does not change the outcome of
  the run. The delete is awaited inside the \<^verbatim>\<open>try\<close> block, so its rejection reaches the
  \<^verbatim>\<open>catch\<close> block: here the video was created, the store then refuses the delete, and the
  run answers 500 with the error of the store; the unlink of the temporary file, which
  comes after the delete, is never reached.
\<close>

theorem failed_delete_turns_success_into_500:
  "videos_insert env_delete_fails = Inr ''dQw4w9WgXcQ'' \<and>
   list_ex is_publish (run_calls env_delete_fails req_ok world0) \<and>
   last (run_calls env_delete_fails req_ok world0) = S3Delete ''video_1700000000000_3f2a9c1e.mp4'' \<and>
   fst (upload env_delete_fails req_ok world0) =
     Answered \<lparr>status = 500, json = [(''error'', JStr ''AccessDenied'')]\<rparr> \<and>
   files (snd (upload env_delete_fails req_ok world0)) = {''/tmp/video_1700000000000_3f2a9c1e.mp4''} \<and>
   pending_unlinks (snd (upload env_delete_fails req_ok world0)) = []"
  by (simp add: run_calls_def handler_defs response_defs eval_defs input_defs)

section \<open>The credential store\<close>

text \<open>
  Claim C3, as stated, fails: the stored access token is expired, the OAuth client
  refreshes it during the publish call, the run answers 200, and the record of the user in
  the store still holds the old token and the old expiry; the next run for the same user
  sets its client up with the old token again.
\<close>

theorem refreshed_token_not_stored_counterexample:
  "token_expiry doc_u1 < int (date_now env_refresh) \<and>
   token_refresh env_refresh = Some (''new-token'', 1700003600000) \<and>
   fst (upload env_refresh req_ok world0) =
     Answered \<lparr>status = 200,
               json = [(''videoId'', JStr ''dQw4w9WgXcQ''),
                       (''message'', JStr ''Video uploaded successfully''),
                       (''url'', JStr ''https://youtu.be/dQw4w9WgXcQ'')]\<rparr> \<and>
   the (db (snd (upload env_refresh req_ok world0))) ''u1'' =
     Some \<lparr>email = ''u1@example.com'', access_token = ''old-token'',
           refresh_token = ''refresh-1'', token_expiry = 1000\<rparr> \<and>
   last (butlast (butlast (run_calls env_refresh req_ok (snd (upload env_refresh req_ok world0))))) =
     YoutubeInsert (insert_params body_ok ''/tmp/video_1700000000000_3f2a9c1e.mp4'')
       \<lparr>cred_access_token = ''old-token'', cred_refresh_token = ''refresh-1'',
        cred_expiry_date = 1000\<rparr>"
  by (simp add: run_calls_def handler_defs response_defs eval_defs input_defs)

text \<open>
  Claim C3, amended. The handler only reads the credential store: after every run,
  also one in which the client refreshed an expired access token, the store is what it was
  before the run, so the next run for the same user reads the token and expiry stored
  before.
\<close>

theorem upload_leaves_credential_store_unchanged:
  "db (snd (upload en req w)) = db w"
  using upload_run [of en req w] by simp

end
